theory Spec2Isabelle
  imports Main
begin

section \<open>CommandProcessor.h: constants\<close>

text \<open>
  The three \<^verbatim>\<open>constexpr size_t\<close> limits of CommandProcessor.h (lines 34-36) and the
  \<^verbatim>\<open>static_assert\<close> of line 37. None of the values is near the range of
  \<^verbatim>\<open>size_t\<close>, so they are natural numbers here.
\<close>

definition kMaxCommandProcessorTasksLimit :: nat where
  "kMaxCommandProcessorTasksLimit = 16"





section \<open>Data model\<close>

subsection \<open>Native result codes and engine results\<close>

text \<open>
  \<^verbatim>\<open>VkResult\<close> comes from the Vulkan headers, which the header only includes. The codes
  listed are the ones the engine distinguishes: success, the two non-error codes of a fence
  poll and a fence wait, and error codes of submission and presentation.
\<close>

datatype VkResult =
    VK_SUCCESS
  | VK_NOT_READY
  | VK_TIMEOUT
  | VK_SUBOPTIMAL_KHR
  | VK_ERROR_OUT_OF_HOST_MEMORY
  | VK_ERROR_DEVICE_LOST
  | VK_ERROR_SURFACE_LOST_KHR
  | VK_ERROR_OUT_OF_DATE_KHR

text \<open>
  \<^verbatim>\<open>angle::Result\<close>: \<open>Continue\<close> or \<open>Stop\<close>. \<open>Stop\<close> carries the native code that the
  failing call handed to \<^verbatim>\<open>Context::handleError\<close> (the fields of \<^verbatim>\<open>struct Error\<close>,
  lines 45-51, without the call site).
\<close>

datatype angle_Result = Continue | Stop VkResult

text \<open>\<^verbatim>\<open>enum class SubmitPolicy\<close> (lines 39-43).\<close>

datatype SubmitPolicy = AllowDeferred | EnsureSubmitted

text \<open>
  Modelled from the spec: \<^verbatim>\<open>ProtectionType\<close> is declared outside CommandProcessor.h; the
  spec has an enumerated protection classification that tells protected from ordinary
  submissions.
\<close>

datatype ProtectionType = Unprotected | Protected

text \<open>
  Modelled from the spec: \<^verbatim>\<open>egl::ContextPriority\<close> is declared outside CommandProcessor.h;
  the spec has an enumerated priority classification.
\<close>

datatype ContextPriority = Low | Medium | High

subsection \<open>Serials\<close>

text \<open>
  Modelled from the spec: \<^verbatim>\<open>Serial\<close>, \<^verbatim>\<open>SerialIndex\<close>, \<^verbatim>\<open>QueueSerial\<close>,
  \<^verbatim>\<open>ResourceUse\<close> and \<^verbatim>\<open>AtomicQueueSerialFixedArray\<close> are declared outside
  CommandProcessor.h. A queue serial is an increasing integer scoped to a serial index;
  a resource use records, per serial index, the highest serial at which the resource was
  referenced, kept here as the list of its (index, serial) entries; the watermark arrays hold
  one serial per index, zero before anything happened on the index. The spec gives serials no
  width, so they are natural numbers.
\<close>

type_synonym Serial = nat
type_synonym SerialIndex = nat

record QueueSerial =
  mIndex :: SerialIndex
  mSerial :: Serial

type_synonym ResourceUse = "(SerialIndex \<times> Serial) list"

type_synonym AtomicQueueSerialFixedArray = "SerialIndex \<Rightarrow> Serial"

text \<open>
  Modelled from the spec: the value of a watermark array before anything happened, every
  index at serial zero (the array's constructor is declared outside the header).
\<close>

definition kZeroSerials :: AtomicQueueSerialFixedArray where
  "kZeroSerials = (\<lambda>_. 0)"

text \<open>
  Modelled from the spec: the comparison \<^verbatim>\<open>use <= serials\<close> that the header's queries
  are written with; its operator is declared outside the header. It walks the entries of the
  use and fails at the first entry whose serial is above the array's serial of the same
  index.
\<close>

fun ResourceUse_le :: "ResourceUse \<Rightarrow> AtomicQueueSerialFixedArray \<Rightarrow> bool" where
  "ResourceUse_le [] serials = True"
| "ResourceUse_le ((i, s) # use) serials =
     (if serials i < s then False else ResourceUse_le use serials)"

text \<open>
  Modelled from the spec: the comparison \<^verbatim>\<open>queueSerial <= serials\<close> of the header's
  queries, its operator declared outside the header: the serial is at or below the array's
  serial of the same index.
\<close>

definition QueueSerial_le :: "QueueSerial \<Rightarrow> AtomicQueueSerialFixedArray \<Rightarrow> bool" where
  "QueueSerial_le queueSerial serials = (mSerial queueSerial \<le> serials (mIndex queueSerial))"

text \<open>
  Modelled from the spec: \<^verbatim>\<open>AtomicQueueSerialFixedArray::setQueueSerial\<close>, declared
  outside the header: the store that advances the watermark of the serial's index to the
  serial.
\<close>

definition setQueueSerial ::
  "AtomicQueueSerialFixedArray \<Rightarrow> QueueSerial \<Rightarrow> AtomicQueueSerialFixedArray" where
  "setQueueSerial serials queueSerial = serials(mIndex queueSerial := mSerial queueSerial)"

subsection \<open>Batches and the command queue\<close>

text \<open>
  \<^verbatim>\<open>class CommandBatch\<close> (lines 247-287). Command buffers and fences are handles. A batch
  carries a recyclable fence of the engine's own or an externally supplied one (members
  \<^verbatim>\<open>mFence\<close> and \<^verbatim>\<open>mExternalFence\<close>).
\<close>

type_synonym FenceHandle = nat
type_synonym CommandBufferHandle = nat

datatype BatchFence = RecyclableFence FenceHandle | ExternalFence FenceHandle

record CommandBatch =
  mQueueSerial :: QueueSerial
  mProtectionType :: ProtectionType
  mPrimaryCommands :: CommandBufferHandle
  mFence :: BatchFence

text \<open>
  The state of \<^verbatim>\<open>class CommandQueue\<close> (lines 622-655): the two batch queues, the
  count of batches in both, and the two watermark arrays. A \<^verbatim>\<open>FixedQueue\<close> is read as
  the list of its elements, front first.
\<close>

record CommandQueue =
  mInFlightCommands :: "CommandBatch list"
  mFinishedCommandBatches :: "CommandBatch list"
  mNumAllCommands :: nat
  mLastSubmittedSerials :: AtomicQueueSerialFixedArray
  mLastCompletedSerials :: AtomicQueueSerialFixedArray

section \<open>Queries of CommandQueue\<close>

text \<open>Lines 473-492 of the header, each a one-line inline member.\<close>

definition getLastSubmittedSerial :: "CommandQueue \<Rightarrow> SerialIndex \<Rightarrow> Serial" where
  "getLastSubmittedSerial q i = mLastSubmittedSerials q i"

definition hasResourceUseFinished :: "CommandQueue \<Rightarrow> ResourceUse \<Rightarrow> bool" where
  "hasResourceUseFinished q use = ResourceUse_le use (mLastCompletedSerials q)"




definition hasFinishedCommands :: "CommandQueue \<Rightarrow> bool" where
  "hasFinishedCommands q = (mFinishedCommandBatches q \<noteq> [])"


section \<open>The driver\<close>

text \<open>
  Modelled from the spec: the driver behind \<^verbatim>\<open>VkDevice\<close>, which the header only names.
  Section 6 of the spec lists the native calls the engine makes: queue submit, fence poll,
  fence wait with a timeout, present. A device value holds the answers the driver gives
  during one call of the engine; a test double is a device value chosen by the test.
\<close>

type_synonym VkPresentInfoKHR = nat

record VkDevice =
  vkQueueSubmit :: "CommandBufferHandle \<Rightarrow> FenceHandle \<Rightarrow> VkResult"
  vkGetFenceStatus :: "FenceHandle \<Rightarrow> VkResult"
  vkWaitForFences :: "FenceHandle \<Rightarrow> nat \<Rightarrow> VkResult"
  vkQueuePresentKHR :: "VkPresentInfoKHR \<Rightarrow> VkResult"

section \<open>CommandBatch\<close>

text \<open>
  Modelled from the spec: \<^verbatim>\<open>getFenceHandle\<close> is declared at line 271, its body is in
  CommandProcessor.cpp. The handle of the fence the batch carries.
\<close>

definition getFenceHandle :: "CommandBatch \<Rightarrow> FenceHandle" where
  "getFenceHandle batch =
     (case mFence batch of RecyclableFence f \<Rightarrow> f | ExternalFence f \<Rightarrow> f)"

text \<open>
  Modelled from the spec: \<^verbatim>\<open>getFenceStatus\<close> is declared at line 272, its body is in
  CommandProcessor.cpp. The fence-poll call on the batch's fence.
\<close>

definition getFenceStatus :: "CommandBatch \<Rightarrow> VkDevice \<Rightarrow> VkResult" where
  "getFenceStatus batch device = vkGetFenceStatus device (getFenceHandle batch)"

text \<open>
  Modelled from the spec: \<^verbatim>\<open>waitFence\<close> is declared at line 273, its body is in
  CommandProcessor.cpp. The fence-wait call on the batch's fence with the timeout given.
\<close>

definition waitFence :: "CommandBatch \<Rightarrow> VkDevice \<Rightarrow> nat \<Rightarrow> VkResult" where
  "waitFence batch device timeout = vkWaitForFences device (getFenceHandle batch) timeout"

section \<open>CommandQueue: completion\<close>

text \<open>
  The private members declared at lines 599-620 have their bodies in CommandProcessor.cpp; the
  header gives their declarations and comments, section 4.4 of the spec what they do:
  \<^verbatim>\<open>checkCompleted\<close> walks the in-flight queue from the front, polls the fence of each
  batch, stops at the first batch that is not signaled, and moves every signaled batch of the
  prefix to the finished queue, advancing the completed watermark of its index to its serial.
\<close>

text \<open>
  Modelled from the spec: \<^verbatim>\<open>moveInFlightBatchToFinishedQueueLocked\<close> (declared at line
  618, body in CommandProcessor.cpp): the batch at the front of the in-flight queue goes to
  the back of the finished queue.
\<close>

definition moveInFlightBatchToFinishedQueueLocked ::
  "CommandBatch \<Rightarrow> CommandQueue \<Rightarrow> CommandQueue" where
  "moveInFlightBatchToFinishedQueueLocked batch q =
     q\<lparr>mFinishedCommandBatches := mFinishedCommandBatches q @ [batch],
       mInFlightCommands := tl (mInFlightCommands q)\<rparr>"

text \<open>
  Modelled from the spec: \<^verbatim>\<open>onCommandBatchFinishedLocked\<close> (declared at line 604, body in
  CommandProcessor.cpp): the completed watermark of the batch's index advances to the batch's
  serial and the batch moves to the finished queue.
\<close>

definition onCommandBatchFinishedLocked :: "CommandBatch \<Rightarrow> CommandQueue \<Rightarrow> CommandQueue" where
  "onCommandBatchFinishedLocked batch q =
     moveInFlightBatchToFinishedQueueLocked batch
       (q\<lparr>mLastCompletedSerials :=
            setQueueSerial (mLastCompletedSerials q) (mQueueSerial batch)\<rparr>)"

text \<open>
  Modelled from the spec: \<^verbatim>\<open>checkOneCommandBatchLocked(context, &finished)\<close> (declared at
  line 601, body in CommandProcessor.cpp): ``check the first command buffer in
  mInFlightCommands and update mLastCompletedSerials if finished''. A poll that answers
  \<open>VK_NOT_READY\<close> leaves the batch in flight, any other answer but \<open>VK_SUCCESS\<close> is an
  error. The result is the \<^verbatim>\<open>angle::Result\<close>, the out-parameter \<^verbatim>\<open>finished\<close> and the
  queue.
\<close>

definition checkOneCommandBatchLocked ::
  "VkDevice \<Rightarrow> CommandQueue \<Rightarrow> angle_Result \<times> bool \<times> CommandQueue" where
  "checkOneCommandBatchLocked device q =
     (case mInFlightCommands q of
        [] \<Rightarrow> (Continue, False, q)
      | batch # _ \<Rightarrow>
          (let status = getFenceStatus batch device in
           if status = VK_NOT_READY then (Continue, False, q)
           else if status \<noteq> VK_SUCCESS then (Stop status, False, q)
           else (Continue, True, onCommandBatchFinishedLocked batch q)))"

text \<open>
  Modelled from the spec: \<^verbatim>\<open>checkCompletedCommandsLocked\<close> (declared at line 609, body in
  CommandProcessor.cpp): ``walk mInFlightCommands, check and update mLastCompletedSerials for
  all commands that are finished''. The loop runs while the in-flight queue is not empty and
  leaves at the first batch that is not finished.
\<close>

function checkCompletedCommandsLocked ::
  "VkDevice \<Rightarrow> CommandQueue \<Rightarrow> angle_Result \<times> CommandQueue" where
  "checkCompletedCommandsLocked device q =
     (if mInFlightCommands q = [] then (Continue, q)
      else (case checkOneCommandBatchLocked device q of
              (Stop e, finished, q') \<Rightarrow> (Stop e, q')
            | (Continue, finished, q') \<Rightarrow>
                if finished then checkCompletedCommandsLocked device q' else (Continue, q')))"
  by pat_completeness auto
termination
proof (relation "measure (\<lambda>(device, q). length (mInFlightCommands q))", goal_cases)
  case 1
  show ?case by simp
next
  case (2 device q r rest finished q')
  then show ?case
    by (cases "mInFlightCommands q")
       (auto simp: checkOneCommandBatchLocked_def onCommandBatchFinishedLocked_def
          moveInFlightBatchToFinishedQueueLocked_def Let_def split: if_splits)
qed

declare checkCompletedCommandsLocked.simps [simp del]

text \<open>
  Lines 527-531: \<^verbatim>\<open>checkCompletedCommands\<close> takes \<^verbatim>\<open>mCmdCompleteMutex\<close> and calls the
  locked walk. The model is sequential, so the lock has no counterpart.
\<close>

definition checkCompletedCommands ::
  "VkDevice \<Rightarrow> CommandQueue \<Rightarrow> angle_Result \<times> CommandQueue" where
  "checkCompletedCommands device q = checkCompletedCommandsLocked device q"

text \<open>
  Lines 535-545: \<^verbatim>\<open>checkAndCleanupCompletedCommands\<close>. Each \<^verbatim>\<open>ANGLE_TRY\<close> returns
  the callee's failure at once. \<^verbatim>\<open>releaseFinishedCommandsAndCleanupGarbage\<close> is declared at
  line 583 and defined in CommandProcessor.cpp; it is the first argument here.
\<close>

definition checkAndCleanupCompletedCommands ::
  "(CommandQueue \<Rightarrow> angle_Result \<times> CommandQueue) \<Rightarrow> VkDevice \<Rightarrow> CommandQueue \<Rightarrow>
     angle_Result \<times> CommandQueue" where
  "checkAndCleanupCompletedCommands releaseFinishedCommandsAndCleanupGarbage device q =
     (case checkCompletedCommands device q of
        (Stop e, q1) \<Rightarrow> (Stop e, q1)
      | (Continue, q1) \<Rightarrow>
          if mFinishedCommandBatches q1 \<noteq> [] then
            (case releaseFinishedCommandsAndCleanupGarbage q1 of
               (Stop e, q2) \<Rightarrow> (Stop e, q2)
             | (Continue, q2) \<Rightarrow> (Continue, q2))
          else (Continue, q1))"

text \<open>A batch counts as signaled when the poll of its fence answers \<open>VK_SUCCESS\<close>.\<close>

definition signaled :: "VkDevice \<Rightarrow> CommandBatch \<Rightarrow> bool" where
  "signaled device batch = (getFenceStatus batch device = VK_SUCCESS)"

text \<open>
  What the walk returns, read off the batch it stopped at: nothing left or a fence that is not
  ready is \<open>Continue\<close>, any other answer of the poll is the error.
\<close>

definition pollResult :: "VkDevice \<Rightarrow> CommandBatch list \<Rightarrow> angle_Result" where
  "pollResult device batches =
     (case batches of
        [] \<Rightarrow> Continue
      | batch # _ \<Rightarrow>
          if getFenceStatus batch device = VK_NOT_READY then Continue
          else Stop (getFenceStatus batch device))"

section \<open>CommandQueue: release\<close>

text \<open>
  Modelled from the spec: \<^verbatim>\<open>popFinishedBatchLocked\<close> (declared at line 619, body in
  CommandProcessor.cpp) takes the front batch off the finished queue.
  \<^verbatim>\<open>mNumAllCommands\<close> counts the batches of both queues (lines 638-641).
\<close>

definition popFinishedBatchLocked :: "CommandQueue \<Rightarrow> CommandQueue" where
  "popFinishedBatchLocked q =
     q\<lparr>mFinishedCommandBatches := tl (mFinishedCommandBatches q),
       mNumAllCommands := mNumAllCommands q - 1\<rparr>"

text \<open>
  Modelled from the spec: \<^verbatim>\<open>releaseFinishedCommandsLocked\<close> (declared at line 606, body in
  CommandProcessor.cpp): \<^verbatim>\<open>release\<close> drains the finished queue (``walk mFinishedCommands,
  reset and recycle all command buffers''). The command buffer pool and the fence pool that
  take the resources back are outside the model.
\<close>

function releaseFinishedCommandsLocked :: "CommandQueue \<Rightarrow> angle_Result \<times> CommandQueue" where
  "releaseFinishedCommandsLocked q =
     (if mFinishedCommandBatches q = [] then (Continue, q)
      else releaseFinishedCommandsLocked (popFinishedBatchLocked q))"
  by pat_completeness auto
termination
  by (relation "measure (\<lambda>q. length (mFinishedCommandBatches q))")
     (auto simp: popFinishedBatchLocked_def)

declare releaseFinishedCommandsLocked.simps [simp del]

text \<open>Lines 584-588: \<^verbatim>\<open>releaseFinishedCommands\<close> takes the release lock and calls the walk.\<close>

definition releaseFinishedCommands :: "CommandQueue \<Rightarrow> angle_Result \<times> CommandQueue" where
  "releaseFinishedCommands q = releaseFinishedCommandsLocked q"

section \<open>CommandQueue: submission and present\<close>

text \<open>
  \<^verbatim>\<open>submitCommands\<close>, \<^verbatim>\<open>queueSubmitOneOff\<close>, \<^verbatim>\<open>queueSubmitLocked\<close> and
  \<^verbatim>\<open>queuePresent\<close> are declared in the header (lines 506-525 and 611-617) and defined in
  CommandProcessor.cpp. Section 4.4 of the spec: a submission builds the batch (the ended
  command buffer, the serial, a fence of the fence pool unless an external fence was
  supplied), issues the native queue-submit call, and on success appends the batch to the
  in-flight queue and then advances the submitted watermark; on failure the batch is not
  enqueued and the error is returned. The command buffer that the command pool hands over and
  the fence that the fence pool hands out are arguments; semaphores are passed through to the
  driver and touch nothing modelled.
\<close>

text \<open>
  Modelled from the spec: \<^verbatim>\<open>pushInFlightBatchLocked\<close> (declared at line 617, body in
  CommandProcessor.cpp) appends the batch to the in-flight queue.
\<close>

definition pushInFlightBatchLocked :: "CommandBatch \<Rightarrow> CommandQueue \<Rightarrow> CommandQueue" where
  "pushInFlightBatchLocked batch q =
     q\<lparr>mInFlightCommands := mInFlightCommands q @ [batch],
       mNumAllCommands := mNumAllCommands q + 1\<rparr>"

text \<open>
  Modelled from the spec: \<^verbatim>\<open>queueSubmitLocked\<close> (declared at lines 611-615, body in
  CommandProcessor.cpp): the native queue-submit call, and on success the push of the batch
  followed by the advance of the submitted watermark.
\<close>

definition queueSubmitLocked ::
  "VkDevice \<Rightarrow> CommandBatch \<Rightarrow> QueueSerial \<Rightarrow> CommandQueue \<Rightarrow> angle_Result \<times> CommandQueue" where
  "queueSubmitLocked device commandBatch submitQueueSerial q =
     (let status =
        vkQueueSubmit device (mPrimaryCommands commandBatch) (getFenceHandle commandBatch) in
      if status \<noteq> VK_SUCCESS then (Stop status, q)
      else
        (let q1 = pushInFlightBatchLocked commandBatch q in
         (Continue,
          q1\<lparr>mLastSubmittedSerials :=
               setQueueSerial (mLastSubmittedSerials q1) submitQueueSerial\<rparr>)))"

text \<open>
  Modelled from the spec: \<^verbatim>\<open>submitCommands\<close> (declared at lines 506-511, body in
  CommandProcessor.cpp) builds the batch and submits it.
\<close>

definition submitCommands ::
  "VkDevice \<Rightarrow> CommandBufferHandle \<Rightarrow> FenceHandle \<Rightarrow> ProtectionType \<Rightarrow> ContextPriority \<Rightarrow>
     FenceHandle option \<Rightarrow> QueueSerial \<Rightarrow> CommandQueue \<Rightarrow> angle_Result \<times> CommandQueue" where
  "submitCommands device primaryCommands pooledFence protectionType priority externalFence
       submitQueueSerial q =
     queueSubmitLocked device
       \<lparr>mQueueSerial = submitQueueSerial, mProtectionType = protectionType,
        mPrimaryCommands = primaryCommands,
        mFence = (case externalFence of
                    None \<Rightarrow> RecyclableFence pooledFence
                  | Some f \<Rightarrow> ExternalFence f)\<rparr>
       submitQueueSerial q"

text \<open>
  Modelled from the spec: \<^verbatim>\<open>queueSubmitOneOff\<close> (declared at lines 513-520, body in
  CommandProcessor.cpp): the same path for a command buffer the caller provides.
\<close>

definition queueSubmitOneOff ::
  "VkDevice \<Rightarrow> FenceHandle \<Rightarrow> ProtectionType \<Rightarrow> ContextPriority \<Rightarrow> CommandBufferHandle \<Rightarrow>
     SubmitPolicy \<Rightarrow> QueueSerial \<Rightarrow> CommandQueue \<Rightarrow> angle_Result \<times> CommandQueue" where
  "queueSubmitOneOff device pooledFence protectionType contextPriority commandBufferHandle
       submitPolicy submitQueueSerial q =
     queueSubmitLocked device
       \<lparr>mQueueSerial = submitQueueSerial, mProtectionType = protectionType,
        mPrimaryCommands = commandBufferHandle, mFence = RecyclableFence pooledFence\<rparr>
       submitQueueSerial q"

text \<open>\<^verbatim>\<open>struct SwapchainStatus\<close> (lines 90-94).\<close>

record SwapchainStatus =
  isPending :: bool
  lastPresentResult :: VkResult

text \<open>
  Modelled from the spec: \<^verbatim>\<open>queuePresent\<close> (declared at lines 522-525, body in
  CommandProcessor.cpp). It returns \<^verbatim>\<open>void\<close>: its only results are the status object it
  was handed and the queue. The native present call is issued and its result code is threaded
  back through the status object.
\<close>

definition queuePresent ::
  "VkDevice \<Rightarrow> ContextPriority \<Rightarrow> VkPresentInfoKHR \<Rightarrow> SwapchainStatus \<Rightarrow> CommandQueue \<Rightarrow>
     SwapchainStatus \<times> CommandQueue" where
  "queuePresent device contextPriority presentInfo swapchainStatus q =
     (swapchainStatus\<lparr>lastPresentResult := vkQueuePresentKHR device presentInfo\<rparr>, q)"

section \<open>CommandQueue: waiting for completion\<close>

text \<open>
  The waiting members are declared at lines 495-503, 593-595 and 603 and defined in
  CommandProcessor.cpp; section 4.4 of the spec says what they do.
\<close>

text \<open>
  Modelled from the spec: ``advances watermarks for every batch thereby implied finished'':
  the first \<open>n\<close> batches in flight are finished, oldest first.
\<close>

fun finishBatches :: "nat \<Rightarrow> CommandQueue \<Rightarrow> CommandQueue" where
  "finishBatches 0 q = q"
| "finishBatches (Suc n) q =
     (case mInFlightCommands q of
        [] \<Rightarrow> q
      | batch # _ \<Rightarrow> finishBatches n (onCommandBatchFinishedLocked batch q))"

text \<open>
  Modelled from the spec: ``locates the oldest unfinished in-flight batch whose completion
  implies [the use] is satisfied'': the number of batches, counted from the front of the
  in-flight queue, up to and including that batch; none if no batch in flight completes the
  use.
\<close>

fun batchesToFinish ::
  "ResourceUse \<Rightarrow> AtomicQueueSerialFixedArray \<Rightarrow> CommandBatch list \<Rightarrow> nat option" where
  "batchesToFinish use serials [] = None"
| "batchesToFinish use serials (batch # rest) =
     (let serials1 = setQueueSerial serials (mQueueSerial batch) in
      if ResourceUse_le use serials1 then Some 1
      else map_option Suc (batchesToFinish use serials1 rest))"

text \<open>
  Modelled from the spec: \<^verbatim>\<open>finishResourceUse\<close> (declared at line 495, body in
  CommandProcessor.cpp). If the use is already finished, return at once; otherwise locate the
  oldest in-flight batch whose completion implies that the use is finished, wait on its fence
  with the timeout, and on success advance the watermarks for every batch thereby implied
  finished. A wait that does not succeed is returned (\<open>Stop VK_TIMEOUT\<close> for a timeout)
  and changes nothing. The spec does not say what \<^verbatim>\<open>finish\<close> does when no in-flight batch
  completes the use; the model has no result there.
\<close>

definition finishResourceUse ::
  "VkDevice \<Rightarrow> ResourceUse \<Rightarrow> nat \<Rightarrow> CommandQueue \<Rightarrow> (angle_Result \<times> CommandQueue) option" where
  "finishResourceUse device use timeout q =
     (if hasResourceUseFinished q use then Some (Continue, q)
      else
        (case batchesToFinish use (mLastCompletedSerials q) (mInFlightCommands q) of
           None \<Rightarrow> None
         | Some n \<Rightarrow>
             (let status = waitFence (mInFlightCommands q ! (n - 1)) device timeout in
              if status \<noteq> VK_SUCCESS then Some (Stop status, q)
              else Some (Continue, finishBatches n q))))"

text \<open>
  Modelled from the spec: \<^verbatim>\<open>finishQueueSerial\<close> (declared at lines 496-498, body in
  CommandProcessor.cpp): \<^verbatim>\<open>finish\<close> for one serial.
\<close>

definition finishQueueSerial ::
  "VkDevice \<Rightarrow> QueueSerial \<Rightarrow> nat \<Rightarrow> CommandQueue \<Rightarrow> (angle_Result \<times> CommandQueue) option" where
  "finishQueueSerial device queueSerial timeout q =
     finishResourceUse device [(mIndex queueSerial, mSerial queueSerial)] timeout q"

text \<open>
  Modelled from the spec: \<^verbatim>\<open>waitIdle\<close> (declared at line 499, body in
  CommandProcessor.cpp) is \<^verbatim>\<open>finish\<close> on the most recently submitted serial of every
  index. The enumeration of the serial indices is declared outside the header and is an
  argument.
\<close>

definition waitIdle ::
  "VkDevice \<Rightarrow> SerialIndex list \<Rightarrow> nat \<Rightarrow> CommandQueue \<Rightarrow> (angle_Result \<times> CommandQueue) option" where
  "waitIdle device indices timeout q =
     finishResourceUse device (map (\<lambda>i. (i, mLastSubmittedSerials q i)) indices) timeout q"

text \<open>
  Modelled from the spec: \<^verbatim>\<open>finishOneCommandBatchLocked\<close> (declared at line 603, body in
  CommandProcessor.cpp): ``similar to checkOneCommandBatch, except we will wait for it to
  finish''.
\<close>

definition finishOneCommandBatchLocked ::
  "VkDevice \<Rightarrow> nat \<Rightarrow> CommandQueue \<Rightarrow> angle_Result \<times> CommandQueue" where
  "finishOneCommandBatchLocked device timeout q =
     (case mInFlightCommands q of
        [] \<Rightarrow> (Continue, q)
      | batch # _ \<Rightarrow>
          (let status = waitFence batch device timeout in
           if status \<noteq> VK_SUCCESS then (Stop status, q)
           else (Continue, onCommandBatchFinishedLocked batch q)))"

text \<open>
  Modelled from the spec: \<^verbatim>\<open>cleanupSomeGarbage\<close> (declared at lines 593-595, body in
  CommandProcessor.cpp): if the finished queue is non-empty, release it; otherwise, if the
  in-flight count exceeds \<open>minInFlightBatchesToKeep\<close>, block-finish the oldest in-flight
  batch, then release. The result carries the out-parameter \<^verbatim>\<open>anyGarbageCleanedOut\<close>.
\<close>

definition cleanupSomeGarbage ::
  "VkDevice \<Rightarrow> nat \<Rightarrow> nat \<Rightarrow> CommandQueue \<Rightarrow> angle_Result \<times> bool \<times> CommandQueue" where
  "cleanupSomeGarbage device timeout minInFlightBatchesToKeep q =
     (if mFinishedCommandBatches q \<noteq> [] then
        (case releaseFinishedCommands q of (r, q1) \<Rightarrow> (r, True, q1))
      else if minInFlightBatchesToKeep < length (mInFlightCommands q) then
        (case finishOneCommandBatchLocked device timeout q of
           (Stop e, q1) \<Rightarrow> (Stop e, False, q1)
         | (Continue, q1) \<Rightarrow>
             (case releaseFinishedCommands q1 of (r, q2) \<Rightarrow> (r, True, q2)))
      else (Continue, False, q))"

section \<open>CommandQueue: device loss\<close>

text \<open>
  Modelled from the spec: the first two steps of \<^verbatim>\<open>handleDeviceLost\<close>, which force-moves
  all in-flight batches to finished without waiting on fences and forcibly advances the
  completed watermarks to match the submitted watermarks for all indices.
\<close>

definition forceFinishInFlight :: "CommandQueue \<Rightarrow> CommandQueue" where
  "forceFinishInFlight q =
     q\<lparr>mFinishedCommandBatches := mFinishedCommandBatches q @ mInFlightCommands q,
       mInFlightCommands := [],
       mLastCompletedSerials := mLastSubmittedSerials q\<rparr>"

text \<open>
  Modelled from the spec: \<^verbatim>\<open>handleDeviceLost\<close> (declared at line 457, body in
  CommandProcessor.cpp): the forced move and advance, then the release of all resources
  without polling.
\<close>

definition handleDeviceLost :: "CommandQueue \<Rightarrow> CommandQueue" where
  "handleDeviceLost q = snd (releaseFinishedCommandsLocked (forceFinishInFlight q))"


section \<open>CommandProcessor\<close>

text \<open>
  \<^verbatim>\<open>enum class CustomTask\<close> (lines 96-110) and the members of
  \<^verbatim>\<open>class CommandProcessorTask\<close> (lines 198-242) that the dispatch of a task reads. The
  protection type of a task is named \<open>mTaskProtectionType\<close> here, the batch has a member
  of the same name.
\<close>

datatype CustomTask =
    Invalid
  | FlushWaitSemaphores
  | ProcessOutsideRenderPassCommands
  | ProcessRenderPassCommands
  | FlushAndQueueSubmit
  | OneOffQueueSubmit
  | Present

record CommandProcessorTask =
  mTask :: CustomTask
  mExternalFence :: "FenceHandle option"
  mSubmitQueueSerial :: QueueSerial
  mPresentInfo :: VkPresentInfoKHR
  mOneOffCommandBuffer :: CommandBufferHandle
  mPriority :: ContextPriority
  mTaskProtectionType :: ProtectionType

text \<open>
  \<^verbatim>\<open>struct Error\<close> (lines 45-51). Its members \<^verbatim>\<open>file\<close>, \<^verbatim>\<open>function\<close> and
  \<^verbatim>\<open>line\<close> carry the prefix \<open>error\<close> here.
\<close>

record Error =
  errorCode :: VkResult
  errorFile :: string
  errorFunction :: string
  errorLine :: nat

text \<open>
  The state of \<^verbatim>\<open>class CommandProcessor\<close> (lines 777-798) without its thread and its
  locks: the task queue, the last enqueued serials and the pending errors.
\<close>

record CommandProcessor =
  mTaskQueue :: "CommandProcessorTask list"
  mLastEnqueuedSerials :: AtomicQueueSerialFixedArray
  mErrors :: "Error list"

text \<open>The three queries of lines 738-746, each a one-line inline member.\<close>

definition getLastEnqueuedSerial :: "CommandProcessor \<Rightarrow> SerialIndex \<Rightarrow> Serial" where
  "getLastEnqueuedSerial p i = mLastEnqueuedSerials p i"

definition hasResourceUseEnqueued :: "CommandProcessor \<Rightarrow> ResourceUse \<Rightarrow> bool" where
  "hasResourceUseEnqueued p use = ResourceUse_le use (mLastEnqueuedSerials p)"

definition hasQueueSerialEnqueued :: "CommandProcessor \<Rightarrow> QueueSerial \<Rightarrow> bool" where
  "hasQueueSerialEnqueued p queueSerial = QueueSerial_le queueSerial (mLastEnqueuedSerials p)"

text \<open>
  The task initialisers (declared at lines 124-156), the enqueue calls (lines 681-718),
  \<^verbatim>\<open>queueCommand\<close> (line 764) and the worker's \<^verbatim>\<open>processTask\<close> and
  \<^verbatim>\<open>processTasksImpl\<close> (lines 768-771) are defined in CommandProcessor.cpp. Section 4.5 of
  the spec: an enqueue records the last enqueued watermark before the worker processes the
  task, and pushes the task; if the queue is full the caller blocks until space is freed. The
  worker dequeues exactly one task, dispatches it to the matching operation of the command
  queue, and on failure pushes an error record and goes on.
\<close>

text \<open>
  Modelled from the spec: \<^verbatim>\<open>initTask\<close> (declared at line 124, body in
  CommandProcessor.cpp): a task of no kind yet, every member at its default.
\<close>

definition initTask :: CommandProcessorTask where
  "initTask =
     \<lparr>mTask = Invalid, mExternalFence = None,
      mSubmitQueueSerial = \<lparr>mIndex = 0, mSerial = 0\<rparr>, mPresentInfo = 0,
      mOneOffCommandBuffer = 0, mPriority = Medium, mTaskProtectionType = Unprotected\<rparr>"

text \<open>
  Modelled from the spec: \<^verbatim>\<open>initFlushAndQueueSubmit\<close> (declared at lines 145-149, body in
  CommandProcessor.cpp): the submit task with the arguments of the submission.
\<close>

definition initFlushAndQueueSubmit ::
  "FenceHandle option \<Rightarrow> ProtectionType \<Rightarrow> ContextPriority \<Rightarrow> QueueSerial \<Rightarrow>
     CommandProcessorTask" where
  "initFlushAndQueueSubmit externalFence protectionType priority submitQueueSerial =
     initTask\<lparr>mTask := FlushAndQueueSubmit, mExternalFence := externalFence,
       mTaskProtectionType := protectionType, mPriority := priority,
       mSubmitQueueSerial := submitQueueSerial\<rparr>"

text \<open>
  Modelled from the spec: \<^verbatim>\<open>initOneOffQueueSubmit\<close> (declared at lines 151-156, body in
  CommandProcessor.cpp): the one-off submit task.
\<close>

definition initOneOffQueueSubmit ::
  "CommandBufferHandle \<Rightarrow> ProtectionType \<Rightarrow> ContextPriority \<Rightarrow> QueueSerial \<Rightarrow>
     CommandProcessorTask" where
  "initOneOffQueueSubmit commandBufferHandle protectionType priority submitQueueSerial =
     initTask\<lparr>mTask := OneOffQueueSubmit, mOneOffCommandBuffer := commandBufferHandle,
       mTaskProtectionType := protectionType, mPriority := priority,
       mSubmitQueueSerial := submitQueueSerial\<rparr>"

text \<open>
  Modelled from the spec: \<^verbatim>\<open>initPresent\<close> (declared at lines 141-143, body in
  CommandProcessor.cpp): the present task.
\<close>

definition initPresent :: "ContextPriority \<Rightarrow> VkPresentInfoKHR \<Rightarrow> CommandProcessorTask" where
  "initPresent priority presentInfo =
     initTask\<lparr>mTask := Present, mPriority := priority, mPresentInfo := presentInfo\<rparr>"

text \<open>
  Modelled from the spec: the initialisers of the three flush tasks (declared at lines
  126-139, bodies in CommandProcessor.cpp), as one function of the kind of the task.
\<close>

definition initFlush :: "CustomTask \<Rightarrow> ProtectionType \<Rightarrow> ContextPriority \<Rightarrow> CommandProcessorTask" where
  "initFlush kind protectionType priority =
     initTask\<lparr>mTask := kind, mTaskProtectionType := protectionType, mPriority := priority\<rparr>"

text \<open>
  Modelled from the spec: \<^verbatim>\<open>queueCommand\<close> (declared at line 764, body in
  CommandProcessor.cpp) pushes the task. With the task queue at its capacity the caller
  blocks until space is freed; in this sequential model the call has no result in that state.
\<close>

definition queueCommand :: "CommandProcessorTask \<Rightarrow> CommandProcessor \<Rightarrow> CommandProcessor option" where
  "queueCommand task p =
     (if kMaxCommandProcessorTasksLimit \<le> length (mTaskQueue p) then None
      else Some (p\<lparr>mTaskQueue := mTaskQueue p @ [task]\<rparr>))"

text \<open>
  Modelled from the spec: \<^verbatim>\<open>enqueueSubmitCommands\<close> (declared at lines 681-686, body in
  CommandProcessor.cpp) records the last enqueued watermark and pushes the submit task.
\<close>

definition enqueueSubmitCommands ::
  "ProtectionType \<Rightarrow> ContextPriority \<Rightarrow> FenceHandle option \<Rightarrow> QueueSerial \<Rightarrow>
     CommandProcessor \<Rightarrow> CommandProcessor option" where
  "enqueueSubmitCommands protectionType priority externalFence submitQueueSerial p =
     queueCommand (initFlushAndQueueSubmit externalFence protectionType priority submitQueueSerial)
       (p\<lparr>mLastEnqueuedSerials := setQueueSerial (mLastEnqueuedSerials p) submitQueueSerial\<rparr>)"

text \<open>
  Modelled from the spec: \<^verbatim>\<open>enqueueSubmitOneOffCommands\<close> (declared at lines 690-697, body
  in CommandProcessor.cpp) records the last enqueued watermark and pushes the one-off task.
\<close>

definition enqueueSubmitOneOffCommands ::
  "ProtectionType \<Rightarrow> ContextPriority \<Rightarrow> CommandBufferHandle \<Rightarrow> SubmitPolicy \<Rightarrow> QueueSerial \<Rightarrow>
     CommandProcessor \<Rightarrow> CommandProcessor option" where
  "enqueueSubmitOneOffCommands protectionType contextPriority commandBufferHandle submitPolicy
       submitQueueSerial p =
     queueCommand
       (initOneOffQueueSubmit commandBufferHandle protectionType contextPriority submitQueueSerial)
       (p\<lparr>mLastEnqueuedSerials := setQueueSerial (mLastEnqueuedSerials p) submitQueueSerial\<rparr>)"

text \<open>
  Modelled from the spec: \<^verbatim>\<open>enqueuePresent\<close> (declared at lines 698-700, body in
  CommandProcessor.cpp) pushes the present task.
\<close>

definition enqueuePresent ::
  "ContextPriority \<Rightarrow> VkPresentInfoKHR \<Rightarrow> CommandProcessor \<Rightarrow> CommandProcessor option" where
  "enqueuePresent contextPriority presentInfo p =
     queueCommand (initPresent contextPriority presentInfo) p"

text \<open>
  Modelled from the spec: the three enqueue calls of the flush tasks (declared at lines
  702-718, bodies in CommandProcessor.cpp), as one function of the kind of the task.
\<close>

definition enqueueFlush ::
  "CustomTask \<Rightarrow> ProtectionType \<Rightarrow> ContextPriority \<Rightarrow> CommandProcessor \<Rightarrow>
     CommandProcessor option" where
  "enqueueFlush kind protectionType priority p =
     (if kind \<in> {FlushWaitSemaphores, ProcessOutsideRenderPassCommands, ProcessRenderPassCommands}
      then queueCommand (initFlush kind protectionType priority) p
      else None)"

text \<open>
  Modelled from the spec: \<^verbatim>\<open>processTask\<close> (declared at line 771, body in
  CommandProcessor.cpp), the dispatch of one task to the matching operation of the command
  queue. The three flush tasks work on the command pool and the present task on the swapchain
  status its producer owns; neither is part of the state modelled, so they leave the command
  queue as it is.
\<close>

definition processTask ::
  "VkDevice \<Rightarrow> CommandBufferHandle \<Rightarrow> FenceHandle \<Rightarrow> CommandProcessorTask \<Rightarrow> CommandQueue \<Rightarrow>
     angle_Result \<times> CommandQueue" where
  "processTask device primaryCommands pooledFence task q =
     (case mTask task of
        FlushAndQueueSubmit \<Rightarrow>
          submitCommands device primaryCommands pooledFence (mTaskProtectionType task)
            (mPriority task) (mExternalFence task) (mSubmitQueueSerial task) q
      | OneOffQueueSubmit \<Rightarrow>
          queueSubmitOneOff device pooledFence (mTaskProtectionType task) (mPriority task)
            (mOneOffCommandBuffer task) AllowDeferred (mSubmitQueueSerial task) q
      | _ \<Rightarrow> (Continue, q))"

text \<open>
  Modelled from the spec: one round of the worker's loop \<^verbatim>\<open>processTasksImpl\<close> (declared at
  line 768, body in CommandProcessor.cpp): with no task queued the worker waits (no result);
  otherwise it dequeues exactly one task, processes it, and on failure pushes an error record
  and goes on.
\<close>

definition processTasksImpl ::
  "VkDevice \<Rightarrow> CommandBufferHandle \<Rightarrow> FenceHandle \<Rightarrow> CommandProcessor \<times> CommandQueue \<Rightarrow>
     (CommandProcessor \<times> CommandQueue) option" where
  "processTasksImpl device primaryCommands pooledFence pq =
     (case mTaskQueue (fst pq) of
        [] \<Rightarrow> None
      | task # rest \<Rightarrow>
          (case processTask device primaryCommands pooledFence task (snd pq) of
             (Continue, q1) \<Rightarrow> Some ((fst pq)\<lparr>mTaskQueue := rest\<rparr>, q1)
           | (Stop e, q1) \<Rightarrow>
               Some ((fst pq)\<lparr>mTaskQueue := rest,
                      mErrors := mErrors (fst pq) @
                        [\<lparr>errorCode = e, errorFile = ''CommandProcessor.cpp'',
                          errorFunction = ''processTask'', errorLine = 0\<rparr>]\<rparr>, q1)))"

section \<open>The engine as a whole\<close>

text \<open>
  Modelled from the spec: the owner of the command queue and the command processor is not in
  the header. The engine is the command queue, the command processor in front of it, and the
  switch that says whether submissions go through the processor (``the asyncCommandQueue
  feature'', line 658).
\<close>

record Engine =
  asyncCommandQueue :: bool
  mCommandQueue :: CommandQueue
  mCommandProcessor :: CommandProcessor

text \<open>
  Modelled from the spec: the engine at start, with the switch as given: nothing in any queue
  and every watermark at zero.
\<close>

definition initEngine :: "bool \<Rightarrow> Engine" where
  "initEngine async =
     \<lparr>asyncCommandQueue = async,
      mCommandQueue =
        \<lparr>mInFlightCommands = [], mFinishedCommandBatches = [], mNumAllCommands = 0,
         mLastSubmittedSerials = kZeroSerials, mLastCompletedSerials = kZeroSerials\<rparr>,
      mCommandProcessor =
        \<lparr>mTaskQueue = [], mLastEnqueuedSerials = kZeroSerials, mErrors = []\<rparr>\<rparr>"

text \<open>
  Modelled from the spec: \<^verbatim>\<open>releaseFinishedCommandsAndCleanupGarbage\<close> (declared at line
  583, body in CommandProcessor.cpp): ``release finished commands and clean up garbage
  immediately, or request async clean up if enabled''. The garbage of the renderer is outside
  the model, and a requested clean-up is the worker's later release.
\<close>

definition releaseFinishedCommandsAndCleanupGarbage ::
  "bool \<Rightarrow> CommandQueue \<Rightarrow> angle_Result \<times> CommandQueue" where
  "releaseFinishedCommandsAndCleanupGarbage async q =
     (if async then (Continue, q) else releaseFinishedCommands q)"

text \<open>
  Modelled from the spec: a call is one operation of sections 4.4 and 4.5 of the spec
  together with what the environment contributes to it: the device's answers and the command
  buffer and the fence handed over by the pools. The serial of a submission is an argument
  of the call, as it is of \<^verbatim>\<open>submitCommands\<close>, \<^verbatim>\<open>queueSubmitOneOff\<close> and the enqueue
  calls of the header (lines 506-520 and 681-697): the caller has reserved it.
\<close>

datatype Call =
    SubmitCommands VkDevice CommandBufferHandle FenceHandle ProtectionType ContextPriority
      "FenceHandle option" QueueSerial
  | QueueSubmitOneOff VkDevice FenceHandle ProtectionType ContextPriority CommandBufferHandle
      SubmitPolicy QueueSerial
  | QueuePresent VkDevice ContextPriority VkPresentInfoKHR SwapchainStatus
  | CheckCompletedCommands VkDevice
  | CheckAndCleanupCompletedCommands VkDevice
  | FinishResourceUse VkDevice ResourceUse nat
  | FinishQueueSerial VkDevice QueueSerial nat
  | WaitIdle VkDevice "SerialIndex list" nat
  | CleanupSomeGarbage VkDevice nat nat
  | ReleaseFinishedCommands
  | HandleDeviceLost
  | EnqueueSubmitCommands ProtectionType ContextPriority "FenceHandle option" QueueSerial
  | EnqueueSubmitOneOffCommands ProtectionType ContextPriority CommandBufferHandle SubmitPolicy
      QueueSerial
  | EnqueuePresent ContextPriority VkPresentInfoKHR
  | EnqueueFlush CustomTask ProtectionType ContextPriority
  | ProcessTasks VkDevice CommandBufferHandle FenceHandle

text \<open>
  Modelled from the spec: an operation of the command queue, run on the engine's command
  queue.
\<close>

definition onQueue ::
  "(CommandQueue \<Rightarrow> angle_Result \<times> CommandQueue) \<Rightarrow> Engine \<Rightarrow> Engine option" where
  "onQueue f e = Some (e\<lparr>mCommandQueue := snd (f (mCommandQueue e))\<rparr>)"

text \<open>
  Modelled from the spec: an enqueue, run on the engine's command processor; the processor
  takes tasks only when it is in use.
\<close>

definition onProcessor ::
  "(CommandProcessor \<Rightarrow> CommandProcessor option) \<Rightarrow> Engine \<Rightarrow> Engine option" where
  "onProcessor f e =
     (if asyncCommandQueue e
      then map_option (\<lambda>p. e\<lparr>mCommandProcessor := p\<rparr>) (f (mCommandProcessor e))
      else None)"

text \<open>
  Modelled from the spec: the effect of one call on the engine; no result where the caller
  would block or the spec does not say what happens. With the processor not in use a
  submission goes to the command queue directly; with it in use a submission is enqueued as
  a task and reaches the command queue when the worker processes the task. A call runs as a
  whole: the states this function relates are those before and after an operation. The
  states inside an operation that a second thread can see, where the header gives the two
  operations different mutexes (lines 624-632), are not among them.
\<close>

fun exec :: "Call \<Rightarrow> Engine \<Rightarrow> Engine option" where
  "exec (SubmitCommands device primaryCommands pooledFence protectionType priority
          externalFence submitQueueSerial) e =
     (if asyncCommandQueue e then None
      else
        onQueue (submitCommands device primaryCommands pooledFence protectionType priority
          externalFence submitQueueSerial) e)"
| "exec (QueueSubmitOneOff device pooledFence protectionType priority commandBufferHandle
          submitPolicy submitQueueSerial) e =
     (if asyncCommandQueue e then None
      else
        onQueue (queueSubmitOneOff device pooledFence protectionType priority
          commandBufferHandle submitPolicy submitQueueSerial) e)"
| "exec (QueuePresent device priority presentInfo swapchainStatus) e =
     (if asyncCommandQueue e then None
      else Some (e\<lparr>mCommandQueue :=
             snd (queuePresent device priority presentInfo swapchainStatus (mCommandQueue e))\<rparr>))"
| "exec (CheckCompletedCommands device) e = onQueue (checkCompletedCommands device) e"
| "exec (CheckAndCleanupCompletedCommands device) e =
     onQueue (checkAndCleanupCompletedCommands
       (releaseFinishedCommandsAndCleanupGarbage (asyncCommandQueue e)) device) e"
| "exec (FinishResourceUse device use timeout) e =
     map_option (\<lambda>rq. e\<lparr>mCommandQueue := snd rq\<rparr>)
       (finishResourceUse device use timeout (mCommandQueue e))"
| "exec (FinishQueueSerial device queueSerial timeout) e =
     map_option (\<lambda>rq. e\<lparr>mCommandQueue := snd rq\<rparr>)
       (finishQueueSerial device queueSerial timeout (mCommandQueue e))"
| "exec (WaitIdle device indices timeout) e =
     map_option (\<lambda>rq. e\<lparr>mCommandQueue := snd rq\<rparr>)
       (waitIdle device indices timeout (mCommandQueue e))"
| "exec (CleanupSomeGarbage device timeout minInFlightBatchesToKeep) e =
     Some (e\<lparr>mCommandQueue :=
       snd (snd (cleanupSomeGarbage device timeout minInFlightBatchesToKeep (mCommandQueue e)))\<rparr>)"
| "exec ReleaseFinishedCommands e = onQueue releaseFinishedCommands e"
| "exec HandleDeviceLost e = Some (e\<lparr>mCommandQueue := handleDeviceLost (mCommandQueue e)\<rparr>)"
| "exec (EnqueueSubmitCommands protectionType priority externalFence submitQueueSerial) e =
     onProcessor (enqueueSubmitCommands protectionType priority externalFence submitQueueSerial) e"
| "exec (EnqueueSubmitOneOffCommands protectionType priority commandBufferHandle submitPolicy
          submitQueueSerial) e =
     onProcessor (enqueueSubmitOneOffCommands protectionType priority commandBufferHandle
       submitPolicy submitQueueSerial) e"
| "exec (EnqueuePresent priority presentInfo) e =
     onProcessor (enqueuePresent priority presentInfo) e"
| "exec (EnqueueFlush kind protectionType priority) e =
     onProcessor (enqueueFlush kind protectionType priority) e"
| "exec (ProcessTasks device primaryCommands pooledFence) e =
     (if asyncCommandQueue e
      then map_option (\<lambda>pq. e\<lparr>mCommandProcessor := fst pq, mCommandQueue := snd pq\<rparr>)
             (processTasksImpl device primaryCommands pooledFence
                (mCommandProcessor e, mCommandQueue e))
      else None)"

text \<open>Modelled from the spec: a sequence of calls, one after the other.\<close>

fun run :: "Call list \<Rightarrow> Engine \<Rightarrow> Engine option" where
  "run [] e = Some e"
| "run (c # cs) e = (case exec c e of None \<Rightarrow> None | Some e1 \<Rightarrow> run cs e1)"

text \<open>
  Modelled from the spec: the states of the engine that some sequence of calls reaches from
  the start, with the processor in use or not.
\<close>

definition reachable :: "Engine \<Rightarrow> bool" where
  "reachable e = (\<exists>async calls. run calls (initEngine async) = Some e)"


section \<open>Example states\<close>

text \<open>
  A test double whose fence poll answers \<open>VK_SUCCESS\<close> for the fences listed and
  \<open>VK_NOT_READY\<close> for every other fence, and three batches submitted on index 0 with the
  serials 1, 2 and 3 and the fences 11, 12 and 13.
\<close>

definition testDevice :: "FenceHandle list \<Rightarrow> VkDevice" where
  "testDevice signaledFences =
     \<lparr>vkQueueSubmit = (\<lambda>_ _. VK_SUCCESS),
      vkGetFenceStatus = (\<lambda>f. if f \<in> set signaledFences then VK_SUCCESS else VK_NOT_READY),
      vkWaitForFences = (\<lambda>f _. if f \<in> set signaledFences then VK_SUCCESS else VK_TIMEOUT),
      vkQueuePresentKHR = (\<lambda>_. VK_SUCCESS)\<rparr>"

definition exampleBatch :: "Serial \<Rightarrow> FenceHandle \<Rightarrow> CommandBatch" where
  "exampleBatch s f =
     \<lparr>mQueueSerial = \<lparr>mIndex = 0, mSerial = s\<rparr>, mProtectionType = Unprotected,
      mPrimaryCommands = s, mFence = RecyclableFence f\<rparr>"

definition threeInFlight :: CommandQueue where
  "threeInFlight =
     \<lparr>mInFlightCommands = [exampleBatch 1 11, exampleBatch 2 12, exampleBatch 3 13],
      mFinishedCommandBatches = [], mNumAllCommands = 3,
      mLastSubmittedSerials = kZeroSerials(0 := 3),
      mLastCompletedSerials = kZeroSerials\<rparr>"

definition oneFinished :: CommandQueue where
  "oneFinished =
     \<lparr>mInFlightCommands = [],
      mFinishedCommandBatches = [exampleBatch 1 11], mNumAllCommands = 1,
      mLastSubmittedSerials = kZeroSerials(0 := 1),
      mLastCompletedSerials = kZeroSerials(0 := 1)\<rparr>"

text \<open>
  The command queue inside a submission of serial 1 on index 0, after the batch has been
  pushed and a completion check has found its fence signaled, before the submitted watermark
  is stored: the batch is in the finished queue, the completed watermark of index 0 is 1 and
  its submitted watermark is still 0.
\<close>

definition midSubmit :: CommandQueue where
  "midSubmit =
     \<lparr>mInFlightCommands = [],
      mFinishedCommandBatches = [exampleBatch 1 11], mNumAllCommands = 1,
      mLastSubmittedSerials = kZeroSerials,
      mLastCompletedSerials = kZeroSerials(0 := 1)\<rparr>"

text \<open>
  Engines reached by one submission on index 0: with the processor not in use after the
  submission and after the completion check that follows it, and with the processor in use
  after the enqueue and after the worker has processed the task.
\<close>

definition syncSubmitted :: Engine where
  "syncSubmitted =
     \<lparr>asyncCommandQueue = False,
      mCommandQueue =
        \<lparr>mInFlightCommands = [exampleBatch 1 11], mFinishedCommandBatches = [],
         mNumAllCommands = 1,
         mLastSubmittedSerials = kZeroSerials(0 := 1), mLastCompletedSerials = kZeroSerials\<rparr>,
      mCommandProcessor =
        \<lparr>mTaskQueue = [], mLastEnqueuedSerials = kZeroSerials, mErrors = []\<rparr>\<rparr>"

definition syncCompleted :: Engine where
  "syncCompleted =
     \<lparr>asyncCommandQueue = False,
      mCommandQueue =
        \<lparr>mInFlightCommands = [], mFinishedCommandBatches = [exampleBatch 1 11],
         mNumAllCommands = 1,
         mLastSubmittedSerials = kZeroSerials(0 := 1),
         mLastCompletedSerials = kZeroSerials(0 := 1)\<rparr>,
      mCommandProcessor =
        \<lparr>mTaskQueue = [], mLastEnqueuedSerials = kZeroSerials, mErrors = []\<rparr>\<rparr>"

definition asyncEnqueued :: Engine where
  "asyncEnqueued =
     \<lparr>asyncCommandQueue = True,
      mCommandQueue =
        \<lparr>mInFlightCommands = [], mFinishedCommandBatches = [], mNumAllCommands = 0,
         mLastSubmittedSerials = kZeroSerials, mLastCompletedSerials = kZeroSerials\<rparr>,
      mCommandProcessor =
        \<lparr>mTaskQueue =
           [initFlushAndQueueSubmit None Unprotected Medium \<lparr>mIndex = 0, mSerial = 1\<rparr>],
         mLastEnqueuedSerials = kZeroSerials(0 := 1), mErrors = []\<rparr>\<rparr>"

definition asyncSubmitted :: Engine where
  "asyncSubmitted =
     \<lparr>asyncCommandQueue = True,
      mCommandQueue =
        \<lparr>mInFlightCommands = [exampleBatch 1 11], mFinishedCommandBatches = [],
         mNumAllCommands = 1,
         mLastSubmittedSerials = kZeroSerials(0 := 1), mLastCompletedSerials = kZeroSerials\<rparr>,
      mCommandProcessor =
        \<lparr>mTaskQueue = [], mLastEnqueuedSerials = kZeroSerials(0 := 1), mErrors = []\<rparr>\<rparr>"




section \<open>Statements about the task queue\<close>


section \<open>Properties\<close>

subsection \<open>The completion walk\<close>

lemma checkCompletedCommandsLocked_eq:
  "checkCompletedCommandsLocked device q =
     (pollResult device (dropWhile (signaled device) (mInFlightCommands q)),
      q\<lparr>mInFlightCommands := dropWhile (signaled device) (mInFlightCommands q),
        mFinishedCommandBatches :=
          mFinishedCommandBatches q @ takeWhile (signaled device) (mInFlightCommands q),
        mLastCompletedSerials :=
          foldl setQueueSerial (mLastCompletedSerials q)
            (map mQueueSerial (takeWhile (signaled device) (mInFlightCommands q)))\<rparr>)"
proof (induction device q rule: checkCompletedCommandsLocked.induct)
  case (1 device q)
  show ?case
  proof (cases "mInFlightCommands q")
    case Nil
    then show ?thesis
      by (subst checkCompletedCommandsLocked.simps) (simp add: pollResult_def)
  next
    case (Cons batch rest)
    show ?thesis
    proof (cases "signaled device batch")
      case True
      let ?q' = "onCommandBatchFinishedLocked batch q"
      from True Cons have one: "checkOneCommandBatchLocked device q = (Continue, True, ?q')"
        by (simp add: checkOneCommandBatchLocked_def signaled_def)
      have "checkCompletedCommandsLocked device q = checkCompletedCommandsLocked device ?q'"
        using Cons one by (subst checkCompletedCommandsLocked.simps) simp
      also have "\<dots> = (pollResult device (dropWhile (signaled device) (mInFlightCommands ?q')),
        ?q'\<lparr>mInFlightCommands := dropWhile (signaled device) (mInFlightCommands ?q'),
        mFinishedCommandBatches :=
          mFinishedCommandBatches ?q' @ takeWhile (signaled device) (mInFlightCommands ?q'),
        mLastCompletedSerials :=
          foldl setQueueSerial (mLastCompletedSerials ?q')
            (map mQueueSerial (takeWhile (signaled device) (mInFlightCommands ?q')))\<rparr>)"
        using "1.IH" [OF _ one [symmetric] refl refl] Cons by simp
      finally show ?thesis
        using True Cons
        by (simp add: onCommandBatchFinishedLocked_def moveInFlightBatchToFinishedQueueLocked_def)
    next
      case False
      then show ?thesis
        using Cons
        by (subst checkCompletedCommandsLocked.simps)
           (simp add: checkOneCommandBatchLocked_def signaled_def pollResult_def Let_def)
    qed
  qed
qed



lemma releaseFinishedCommandsLocked_eq:
  "releaseFinishedCommandsLocked q =
     (Continue, q\<lparr>mFinishedCommandBatches := [],
        mNumAllCommands := mNumAllCommands q - length (mFinishedCommandBatches q)\<rparr>)"
proof (induction q rule: releaseFinishedCommandsLocked.induct)
  case (1 q)
  show ?case
  proof (cases "mFinishedCommandBatches q = []")
    case True
    then show ?thesis
      by (subst releaseFinishedCommandsLocked.simps) simp
  next
    case False
    then show ?thesis
      using "1.IH"
      by (subst releaseFinishedCommandsLocked.simps)
         (simp add: popFinishedBatchLocked_def)
  qed
qed

text \<open>
  C1. \<open>checkCompletedCommands\<close> moves exactly the longest prefix of signaled batches, in
  order, from the in-flight queue to the end of the finished queue: the \<open>n\<close> batches moved
  are all signaled, the batch after them (if any) is not, the completed watermarks are
  advanced batch by batch to the serials of the moved batches, and a batch behind one whose
  fence is not signaled stays in flight whatever its own fence says.
\<close>

theorem checkCompletedCommands_signaled_prefix:
  "checkCompletedCommands device q = (r, q') \<Longrightarrow>
     (let inflight = mInFlightCommands q;
          n = length (takeWhile (signaled device) inflight) in
      mFinishedCommandBatches q' = mFinishedCommandBatches q @ take n inflight \<and>
      mInFlightCommands q' = drop n inflight \<and>
      (\<forall>j<n. signaled device (inflight ! j)) \<and>
      (n < length inflight \<longrightarrow> \<not> signaled device (inflight ! n)) \<and>
      mLastCompletedSerials q' =
        foldl setQueueSerial (mLastCompletedSerials q) (map mQueueSerial (take n inflight)) \<and>
      (\<forall>j k. j < k \<longrightarrow> k < length inflight \<longrightarrow> \<not> signaled device (inflight ! j) \<longrightarrow>
         \<not> k < n))"
proof -
  assume run: "checkCompletedCommands device q = (r, q')"
  define inflight where "inflight = mInFlightCommands q"
  define n where "n = length (takeWhile (signaled device) inflight)"
  have tk: "takeWhile (signaled device) inflight = take n inflight"
    unfolding n_def by (rule takeWhile_eq_take)
  have dr: "dropWhile (signaled device) inflight = drop n inflight"
    unfolding n_def by (rule dropWhile_eq_drop)
  have q': "q' = q\<lparr>mInFlightCommands := drop n inflight,
      mFinishedCommandBatches := mFinishedCommandBatches q @ take n inflight,
      mLastCompletedSerials :=
        foldl setQueueSerial (mLastCompletedSerials q) (map mQueueSerial (take n inflight))\<rparr>"
    using run
    unfolding checkCompletedCommands_def checkCompletedCommandsLocked_eq
    by (simp add: inflight_def [symmetric] tk dr)
  have sig: "signaled device (inflight ! j)" if "j < n" for j
  proof -
    from that have "takeWhile (signaled device) inflight ! j = inflight ! j"
      unfolding n_def by (rule takeWhile_nth)
    moreover from that have "takeWhile (signaled device) inflight ! j
        \<in> set (takeWhile (signaled device) inflight)"
      unfolding n_def by (rule nth_mem)
    ultimately show ?thesis by (auto dest: set_takeWhileD)
  qed
  have stop: "\<not> signaled device (inflight ! n)" if "n < length inflight"
    using that unfolding n_def by (rule nth_length_takeWhile)
  have order: "\<not> k < n" if "j < k" "\<not> signaled device (inflight ! j)" for j k
    using that sig [of j] by auto
  show ?thesis
    unfolding Let_def inflight_def [symmetric] n_def [symmetric]
    using q' sig stop order by simp
qed

text \<open>
  The scenario of the spec: three batches on index 0 with the serials 1, 2 and 3. While only
  the fences of the second and the third are signaled, nothing moves and the completed
  watermark stays at 0; once all three are signaled, one pass moves all three and takes the
  watermark to 3.
\<close>

theorem checkCompletedCommands_signaled_prefix_witness:
  "mFinishedCommandBatches (snd (checkCompletedCommands (testDevice [12, 13]) threeInFlight)) = []
   \<and> mInFlightCommands (snd (checkCompletedCommands (testDevice [12, 13]) threeInFlight))
       = [exampleBatch 1 11, exampleBatch 2 12, exampleBatch 3 13]
   \<and> mLastCompletedSerials
       (snd (checkCompletedCommands (testDevice [12, 13]) threeInFlight)) 0 = 0
   \<and> mFinishedCommandBatches
       (snd (checkCompletedCommands (testDevice [11, 12, 13]) threeInFlight))
       = [exampleBatch 1 11, exampleBatch 2 12, exampleBatch 3 13]
   \<and> mInFlightCommands
       (snd (checkCompletedCommands (testDevice [11, 12, 13]) threeInFlight)) = []
   \<and> mLastCompletedSerials
       (snd (checkCompletedCommands (testDevice [11, 12, 13]) threeInFlight)) 0 = 3"
  using
    checkCompletedCommands_signaled_prefix [of "testDevice [12, 13]" threeInFlight
      "fst (checkCompletedCommands (testDevice [12, 13]) threeInFlight)"
      "snd (checkCompletedCommands (testDevice [12, 13]) threeInFlight)"]
    checkCompletedCommands_signaled_prefix [of "testDevice [11, 12, 13]" threeInFlight
      "fst (checkCompletedCommands (testDevice [11, 12, 13]) threeInFlight)"
      "snd (checkCompletedCommands (testDevice [11, 12, 13]) threeInFlight)"]
  by (simp add: Let_def threeInFlight_def testDevice_def exampleBatch_def signaled_def
      getFenceStatus_def getFenceHandle_def setQueueSerial_def kZeroSerials_def)

subsection \<open>Check and clean up\<close>

text \<open>
  C10, as amended. If the completion check fails, \<open>checkAndCleanupCompletedCommands\<close>
  returns that failure and the queue as the check left it, whatever the release step would
  do. If the check succeeds and leaves the finished queue empty, the call returns the check's
  queue and the release step does not run; if it leaves the finished queue non-empty, the
  result is the release step's. So a call performs no release when the finished queue was
  empty before the call and the check added nothing to it.
\<close>

theorem checkAndCleanupCompletedCommands_release_gate:
  "(\<forall>e q1. checkCompletedCommands device q = (Stop e, q1) \<longrightarrow>
      checkAndCleanupCompletedCommands rel device q = (Stop e, q1)) \<and>
   (\<forall>q1. checkCompletedCommands device q = (Continue, q1) \<and> mFinishedCommandBatches q1 = [] \<longrightarrow>
      checkAndCleanupCompletedCommands rel device q = (Continue, q1)) \<and>
   (\<forall>q1. checkCompletedCommands device q = (Continue, q1) \<and> mFinishedCommandBatches q1 \<noteq> [] \<longrightarrow>
      checkAndCleanupCompletedCommands rel device q = rel q1) \<and>
   (\<forall>r q1. checkCompletedCommands device q = (r, q1) \<and> mFinishedCommandBatches q = [] \<and>
      mFinishedCommandBatches q1 = mFinishedCommandBatches q \<longrightarrow>
      checkAndCleanupCompletedCommands rel device q = (r, q1))"
proof -
  have same: "(case p of (Stop e, q2) \<Rightarrow> (Stop e, q2) | (Continue, q2) \<Rightarrow> (Continue, q2)) = p"
    for p :: "angle_Result \<times> CommandQueue"
    by (cases p) (auto split: angle_Result.splits)
  show ?thesis
    unfolding checkAndCleanupCompletedCommands_def
    by (auto simp: same split: angle_Result.splits)
qed

text \<open>
  The claim as stated fails: with one batch left in the finished queue by an earlier check
  and nothing in flight, the check finishes nothing new and yet the finished queue is
  released.
\<close>

theorem checkAndCleanupCompletedCommands_releases_old_work:
  "checkCompletedCommands (testDevice []) oneFinished = (Continue, oneFinished)
   \<and> mFinishedCommandBatches oneFinished = [exampleBatch 1 11]
   \<and> mFinishedCommandBatches
       (snd (checkAndCleanupCompletedCommands releaseFinishedCommands (testDevice [])
          oneFinished)) = []"
  by (simp add: checkAndCleanupCompletedCommands_def checkCompletedCommands_def
      checkCompletedCommandsLocked_eq pollResult_def releaseFinishedCommands_def
      releaseFinishedCommandsLocked_eq oneFinished_def)

text \<open>
  Two instances: with three batches in flight, the first of them not signaled and nothing
  finished, the call returns the queue as it was; with one batch in the finished queue the
  result is the release step's.
\<close>

theorem checkAndCleanupCompletedCommands_release_gate_witness:
  "checkAndCleanupCompletedCommands releaseFinishedCommands (testDevice [12, 13]) threeInFlight
     = (Continue, threeInFlight)
   \<and> checkAndCleanupCompletedCommands releaseFinishedCommands (testDevice []) oneFinished
     = releaseFinishedCommands oneFinished"
proof -
  have a: "checkCompletedCommands (testDevice [12, 13]) threeInFlight = (Continue, threeInFlight)"
    by (simp add: checkCompletedCommands_def checkCompletedCommandsLocked_eq pollResult_def
        signaled_def threeInFlight_def testDevice_def exampleBatch_def getFenceStatus_def
        getFenceHandle_def)
  have b: "checkCompletedCommands (testDevice []) oneFinished = (Continue, oneFinished)"
    by (simp add: checkCompletedCommands_def checkCompletedCommandsLocked_eq pollResult_def
        oneFinished_def)
  have c: "mFinishedCommandBatches threeInFlight = []"
    by (simp add: threeInFlight_def)
  have d: "mFinishedCommandBatches oneFinished \<noteq> []"
    by (simp add: oneFinished_def)
  from checkAndCleanupCompletedCommands_release_gate
    [of "testDevice [12, 13]" threeInFlight releaseFinishedCommands] a c
  have "checkAndCleanupCompletedCommands releaseFinishedCommands (testDevice [12, 13])
      threeInFlight = (Continue, threeInFlight)"
    by blast
  moreover from checkAndCleanupCompletedCommands_release_gate
    [of "testDevice []" oneFinished releaseFinishedCommands] b d
  have "checkAndCleanupCompletedCommands releaseFinishedCommands (testDevice []) oneFinished
      = releaseFinishedCommands oneFinished"
    by blast
  ultimately show ?thesis by simp
qed


subsection \<open>Comparison of a use with a watermark array\<close>

lemma ResourceUse_le_iff:
  "ResourceUse_le use serials = (\<forall>(i, s) \<in> set use. s \<le> serials i)"
  by (induction use serials rule: ResourceUse_le.induct) (auto simp: not_less)


text \<open>
  C5. \<open>hasResourceUseFinished\<close> answers true exactly when every (index, serial) entry
  recorded in the use has its serial at or below the completed watermark of its index.
\<close>

theorem hasResourceUseFinished_iff:
  "hasResourceUseFinished q use =
     (\<forall>(i, s) \<in> set use. s \<le> mLastCompletedSerials q i)"
  unfolding hasResourceUseFinished_def by (rule ResourceUse_le_iff)

text \<open>
  With the completed watermarks 5 on index 0 and 4 on index 1, a use at serials 5 and 3 is
  finished and a use at serials 4 and 6 is not.
\<close>

theorem hasResourceUseFinished_iff_witness:
  "hasResourceUseFinished
     \<lparr>mInFlightCommands = [], mFinishedCommandBatches = [], mNumAllCommands = 0,
      mLastSubmittedSerials = kZeroSerials(0 := 7, 1 := 4),
      mLastCompletedSerials = kZeroSerials(0 := 5, 1 := 4)\<rparr> [(0, 5), (1, 3)]
   \<and> \<not> hasResourceUseFinished
     \<lparr>mInFlightCommands = [], mFinishedCommandBatches = [], mNumAllCommands = 0,
      mLastSubmittedSerials = kZeroSerials(0 := 7, 1 := 4),
      mLastCompletedSerials = kZeroSerials(0 := 5, 1 := 4)\<rparr> [(1, 4), (0, 6)]"
  unfolding hasResourceUseFinished_iff by (simp add: kZeroSerials_def)

subsection \<open>Sequences of calls\<close>

lemma run_append:
  "run (cs @ ds) e = (case run cs e of None \<Rightarrow> None | Some e1 \<Rightarrow> run ds e1)"
  by (induction cs arbitrary: e) (auto split: option.splits)

lemma reachable_exec: "reachable e \<Longrightarrow> exec c e = Some e' \<Longrightarrow> reachable e'"
proof -
  assume "reachable e" and step: "exec c e = Some e'"
  then obtain async calls where "run calls (initEngine async) = Some e"
    by (auto simp: reachable_def)
  with step have "run (calls @ [c]) (initEngine async) = Some e'"
    by (simp add: run_append)
  then show ?thesis
    unfolding reachable_def by blast
qed

subsection \<open>The example engines are reached\<close>

lemma reachable_syncSubmitted: "reachable syncSubmitted"
  unfolding reachable_def
  by (intro exI [of _ False]
        exI [of _ "[SubmitCommands (testDevice []) 1 11 Unprotected Medium None
                     \<lparr>mIndex = 0, mSerial = 1\<rparr>]"])
     (simp add: syncSubmitted_def initEngine_def onQueue_def submitCommands_def
        queueSubmitLocked_def pushInFlightBatchLocked_def setQueueSerial_def testDevice_def
        exampleBatch_def kZeroSerials_def)

lemma exec_syncSubmitted:
  "exec (CheckCompletedCommands (testDevice [11])) syncSubmitted = Some syncCompleted"
  by (simp add: syncSubmitted_def syncCompleted_def onQueue_def checkCompletedCommands_def
      checkCompletedCommandsLocked_eq signaled_def getFenceStatus_def getFenceHandle_def
      testDevice_def exampleBatch_def setQueueSerial_def kZeroSerials_def)

lemma reachable_asyncEnqueued: "reachable asyncEnqueued"
  unfolding reachable_def
  by (intro exI [of _ True]
        exI [of _ "[EnqueueSubmitCommands Unprotected Medium None \<lparr>mIndex = 0, mSerial = 1\<rparr>]"])
     (simp add: asyncEnqueued_def initEngine_def onProcessor_def
        enqueueSubmitCommands_def queueCommand_def kMaxCommandProcessorTasksLimit_def
        setQueueSerial_def kZeroSerials_def)

lemma exec_asyncEnqueued:
  "exec (ProcessTasks (testDevice []) 1 11) asyncEnqueued = Some asyncSubmitted"
  by (simp add: asyncEnqueued_def asyncSubmitted_def processTasksImpl_def processTask_def
      initFlushAndQueueSubmit_def initTask_def submitCommands_def queueSubmitLocked_def
      pushInFlightBatchLocked_def setQueueSerial_def testDevice_def exampleBatch_def
      kZeroSerials_def)

lemma reachable_syncCompleted: "reachable syncCompleted"
  by (rule reachable_exec [OF reachable_syncSubmitted exec_syncSubmitted])

text \<open>
  The queue with one batch left in the finished queue is the queue of an engine after one
  direct submission and one completion check.
\<close>

lemma oneFinished_reached: "reachable syncCompleted \<and> mCommandQueue syncCompleted = oneFinished"
  using reachable_syncCompleted by (simp add: syncCompleted_def oneFinished_def)

subsection \<open>The task queue\<close>















subsection \<open>Finished and submitted\<close>


text \<open>
  The command queue \<open>midSubmit\<close> arises inside one submission on the empty queue:
  the native submit call succeeds, the batch is pushed, and a completion check that finds
  the fence of the batch signaled moves the batch to the finished queue and sets the
  completed watermark. The store of the submitted watermark, the last step of the
  submission, then gives the command queue \<open>oneFinished\<close>.
\<close>

lemma midSubmit_reached:
  "vkQueueSubmit (testDevice [11]) (mPrimaryCommands (exampleBatch 1 11))
      (getFenceHandle (exampleBatch 1 11)) = VK_SUCCESS \<and>
   checkCompletedCommands (testDevice [11])
      (pushInFlightBatchLocked (exampleBatch 1 11) (mCommandQueue (initEngine False))) =
     (Continue, midSubmit) \<and>
   midSubmit\<lparr>mLastSubmittedSerials :=
       setQueueSerial (mLastSubmittedSerials midSubmit) \<lparr>mIndex = 0, mSerial = 1\<rparr>\<rparr> =
     oneFinished"
  by (simp add: checkCompletedCommands_def checkCompletedCommandsLocked_eq
      pushInFlightBatchLocked_def initEngine_def midSubmit_def oneFinished_def signaled_def
      pollResult_def getFenceStatus_def getFenceHandle_def testDevice_def exampleBatch_def
      setQueueSerial_def kZeroSerials_def)




subsection \<open>Limits\<close>




end
